theory Spec2Isabelle
  imports Main
begin

section \<open>Results of a Go call\<close>

text \<open>
  A Go call either returns, panics, or ends the whole process (\<^verbatim>\<open>os.Exit\<close>, which
  \<^verbatim>\<open>log.Fatal\<close> calls after printing). A nil pointer is \<open>None\<close>; reading a field
  through it panics.
\<close>

datatype panic = PanicMsg string | NilPointerDereference

datatype 'a outcome = Returns 'a | Panics panic | Exits int

fun and_then :: "'a outcome \<Rightarrow> ('a \<Rightarrow> 'b outcome) \<Rightarrow> 'b outcome" where
  "and_then (Returns x) f = f x"
| "and_then (Panics p) f = Panics p"
| "and_then (Exits n) f = Exits n"

fun deref :: "'a option \<Rightarrow> 'a outcome" where
  "deref None = Panics NilPointerDereference"
| "deref (Some x) = Returns x"

section \<open>The data of client.go\<close>

text \<open>\<^verbatim>\<open>time.Duration\<close> counts nanoseconds.\<close>

type_synonym Duration = int

definition Second :: Duration where
  "Second = 1000000000"

definition jsonType :: string where
  "jsonType = ''application/json''"

definition defaultRequestTimeOut :: Duration where
  "defaultRequestTimeOut = 30 * Second"

record HttpConfig =
  baseURL :: string
  username :: string
  password :: string
  accept :: string

text \<open>
  The fields of \<^verbatim>\<open>http.Transport\<close> and \<^verbatim>\<open>http.Client\<close> that the constructors set.
  \<open>Proxy\<close> is true for \<^verbatim>\<open>http.ProxyFromEnvironment\<close>; the two dialer fields are those of the
  \<^verbatim>\<open>net.Dialer\<close> behind \<^verbatim>\<open>DialContext\<close>.
\<close>

record Transport =
  Proxy :: bool
  DialTimeout :: Duration
  DialKeepAlive :: Duration
  MaxIdleConns :: int
  IdleConnTimeout :: Duration
  TLSHandshakeTimeout :: Duration
  ExpectContinueTimeout :: Duration

record http_Client =
  Transport :: "Transport option"
  Timeout :: Duration

record HttpClient =
  client :: "http_Client option"
  config :: "HttpConfig option"

text \<open>
  The values a Go \<^verbatim>\<open>error\<close> takes here: the three error types of client.go, the result of
  \<^verbatim>\<open>fmt.Errorf\<close> (kept as its format and arguments), and the errors of the standard
  library (\<^verbatim>\<open>errors.New\<close>, a failed round trip).
\<close>

datatype fmtarg = ArgInt int | ArgStr string

datatype error =
    NotFoundError string string
  | UnauthorizedError string string int
  | RemoteError string error
  | Errorf string "fmtarg list"
  | errorString string

text \<open>
  A \<^verbatim>\<open>context.Context\<close>. \<open>Deadline\<close> is the time left until the context's deadline, measured from
  the call being modelled; \<open>None\<close> is a context with no deadline.
\<close>

datatype Context =
    Background
  | TODO
  | WithTimeout Context Duration
  | WithCancel Context
  | WithValue Context string string

fun Deadline :: "Context \<Rightarrow> Duration option" where
  "Deadline Background = None"
| "Deadline TODO = None"
| "Deadline (WithTimeout parent d) =
     (case Deadline parent of None \<Rightarrow> Some d | Some d' \<Rightarrow> Some (min d d'))"
| "Deadline (WithCancel parent) = Deadline parent"
| "Deadline (WithValue parent k v) = Deadline parent"

text \<open>
  The fields of \<^verbatim>\<open>url.URL\<close>, \<^verbatim>\<open>http.Request\<close> and \<^verbatim>\<open>http.Response\<close> that client.go reads
  or writes. A header maps a key to its list of values; a body is the text its reader yields.
  The URL of a request is a record, not a pointer: \<^verbatim>\<open>http.NewRequest\<close> always sets it.
\<close>

record URL =
  Scheme :: string
  Host :: string
  Path :: string
  RawQuery :: string

record Request =
  Method :: string
  URL :: URL
  Header :: "string \<rightharpoonup> string list"
  Body :: "string option"
  ctx :: "Context option"

record Response =
  StatusCode :: int
  RespBody :: string
  Request :: "Request option"

section \<open>The standard library, as far as client.go calls it\<close>

subsection \<open>Package strings\<close>

definition HasSuffix :: "string \<Rightarrow> string \<Rightarrow> bool" where
  "HasSuffix s suffix =
     (length s \<ge> length suffix \<and> drop (length s - length suffix) s = suffix)"

definition HasPrefix :: "string \<Rightarrow> string \<Rightarrow> bool" where
  "HasPrefix s prefix = (length s \<ge> length prefix \<and> take (length prefix) s = prefix)"

definition TrimSuffix :: "string \<Rightarrow> string \<Rightarrow> string" where
  "TrimSuffix s suffix =
     (if HasSuffix s suffix then take (length s - length suffix) s else s)"

definition TrimPrefix :: "string \<Rightarrow> string \<Rightarrow> string" where
  "TrimPrefix s prefix = (if HasPrefix s prefix then drop (length prefix) s else s)"

subsection \<open>Package encoding/base64: the standard encoding, padded\<close>

definition encodeStd :: string where
  "encodeStd = ''ABCDEFGHIJKLMNOPQRSTUVWXYZabcdefghijklmnopqrstuvwxyz0123456789+/''"

fun EncodeToString :: "nat list \<Rightarrow> string" where
  "EncodeToString (a # b # c # rest) =
     [encodeStd ! (a div 4), encodeStd ! ((a mod 4) * 16 + b div 16),
      encodeStd ! ((b mod 16) * 4 + c div 64), encodeStd ! (c mod 64)] @ EncodeToString rest"
| "EncodeToString [a, b] =
     [encodeStd ! (a div 4), encodeStd ! ((a mod 4) * 16 + b div 16),
      encodeStd ! ((b mod 16) * 4), CHR ''='']"
| "EncodeToString [a] =
     [encodeStd ! (a div 4), encodeStd ! ((a mod 4) * 16), CHR ''='', CHR ''='']"
| "EncodeToString [] = []"

definition bytes :: "string \<Rightarrow> nat list" where
  "bytes s = map of_char s"

subsection \<open>Package context\<close>

text \<open>\<^verbatim>\<open>context.WithTimeout\<close> also returns a cancel function, which client.go drops.\<close>

definition context_WithTimeout :: "Context \<Rightarrow> Duration \<Rightarrow> Context" where
  "context_WithTimeout parent d = WithTimeout parent d"

subsection \<open>Package log\<close>

text \<open>\<^verbatim>\<open>log.Fatal\<close> prints its argument and calls \<^verbatim>\<open>os.Exit(1)\<close>: it never returns.\<close>

definition log_Fatal :: "error \<Rightarrow> unit outcome" where
  "log_Fatal e = Exits 1"

subsection \<open>Package net/http\<close>

text \<open>
  What client.go cannot decide by itself is taken as a parameter: how \<^verbatim>\<open>url.Parse\<close> reads a
  string (\<open>Inl\<close> is its error), what \<^verbatim>\<open>URL.String\<close> prints, what a round trip through an
  \<^verbatim>\<open>http.Client\<close> yields (the response and the error of \<^verbatim>\<open>Client.Do\<close>, either of which may
  be nil), and the query string that results from adding a builder's parameters to the
  values of an existing raw query and encoding them (\<^verbatim>\<open>URL.Query\<close>, \<^verbatim>\<open>Values.Add\<close>,
  \<^verbatim>\<open>Values.Encode\<close>).
\<close>

record golib =
  url_Parse :: "string \<Rightarrow> error + URL"
  URL_String :: "URL \<Rightarrow> string"
  Client_Do :: "http_Client \<Rightarrow> Request \<Rightarrow> Response option \<times> error option"
  Values_Encode :: "string \<Rightarrow> (string \<rightharpoonup> string) \<Rightarrow> string"

text \<open>A method is valid when it is a non-empty HTTP token.\<close>

definition isTokenRune :: "char \<Rightarrow> bool" where
  "isTokenRune c =
     (c \<in> set ''ABCDEFGHIJKLMNOPQRSTUVWXYZabcdefghijklmnopqrstuvwxyz0123456789!#$%&*+-.^_`|~''
      \<or> c = CHR 0x27)"

definition validMethod :: "string \<Rightarrow> bool" where
  "validMethod method = (length method > 0 \<and> list_all isTokenRune method)"

definition MethodGet :: string where "MethodGet = ''GET''"
definition MethodPost :: string where "MethodPost = ''POST''"
definition MethodPut :: string where "MethodPut = ''PUT''"
definition MethodDelete :: string where "MethodDelete = ''DELETE''"

definition StatusUnauthorized :: int where "StatusUnauthorized = 401"
definition StatusNotFound :: int where "StatusNotFound = 404"

text \<open>
  \<^verbatim>\<open>http.NewRequest\<close>: an empty method means GET; an invalid method or a URL that does not
  parse gives a nil request and the error; otherwise the request has an empty header and
  the background context.
\<close>

definition NewRequest ::
  "golib \<Rightarrow> string \<Rightarrow> string \<Rightarrow> string option \<Rightarrow> Request option \<times> error option" where
  "NewRequest L method url body =
     (let method = (if method = [] then ''GET'' else method) in
      if \<not> validMethod method
      then (None, Some (Errorf ''net/http: invalid method %q'' [ArgStr method]))
      else (case url_Parse L url of
              Inl err \<Rightarrow> (None, Some err)
            | Inr u \<Rightarrow>
                (Some \<lparr>Method = method, URL = u, Header = Map.empty, Body = body,
                       ctx = Some Background\<rparr>, None)))"

text \<open>
  \<^verbatim>\<open>Header.Set\<close> replaces the values of a key. It canonicalises the key first; the three keys
  client.go sets (Content-Type, Accept, Authorization) are canonical as written.
\<close>

definition Header_Set :: "Request \<Rightarrow> string \<Rightarrow> string \<Rightarrow> Request" where
  "Header_Set r key v = r\<lparr>Header := (Header r)(key \<mapsto> [v])\<rparr>"

definition basicAuth :: "string \<Rightarrow> string \<Rightarrow> string" where
  "basicAuth user pass = EncodeToString (bytes (user @ '':'' @ pass))"

definition SetBasicAuth :: "Request \<Rightarrow> string \<Rightarrow> string \<Rightarrow> Request" where
  "SetBasicAuth r user pass = Header_Set r ''Authorization'' (''Basic '' @ basicAuth user pass)"

text \<open>\<^verbatim>\<open>Request.Context\<close>: the request's context, the background context when it has none.\<close>

definition Request_Context :: "Request \<Rightarrow> Context" where
  "Request_Context r = (case ctx r of Some c \<Rightarrow> c | None \<Rightarrow> Background)"

text \<open>\<^verbatim>\<open>Request.WithContext\<close> copies the request; a nil context panics.\<close>

definition Request_WithContext :: "Request \<Rightarrow> Context option \<Rightarrow> Request outcome" where
  "Request_WithContext r c =
     (case c of
        None \<Rightarrow> Panics (PanicMsg ''nil context'')
      | Some c' \<Rightarrow> Returns (r\<lparr>ctx := Some c'\<rparr>))"

section \<open>Configuration and constructors\<close>

definition NewHttpConfig :: "string \<Rightarrow> string \<Rightarrow> string \<Rightarrow> string \<Rightarrow> HttpConfig" where
  "NewHttpConfig baseURL' username' password' accept' =
     (let config = \<lparr>baseURL = baseURL', username = username', password = password',
                    accept = jsonType\<rparr>
      in if accept' \<noteq> [] then config\<lparr>accept := accept'\<rparr> else config)"

definition NewDefaultHttpConfig :: "string \<Rightarrow> HttpConfig" where
  "NewDefaultHttpConfig baseURL' = NewHttpConfig baseURL' [] [] jsonType"

text \<open>The \<^verbatim>\<open>http.Client\<close> literal that the first two constructors build.\<close>

definition pooledClient :: http_Client where
  "pooledClient =
     \<lparr>Transport = Some \<lparr>Proxy = True,
                         DialTimeout = defaultRequestTimeOut,
                         DialKeepAlive = defaultRequestTimeOut,
                         MaxIdleConns = 100,
                         IdleConnTimeout = 90 * Second,
                         TLSHandshakeTimeout = 10 * Second,
                         ExpectContinueTimeout = 1 * Second\<rparr>,
      Timeout = defaultRequestTimeOut\<rparr>"

definition NewDefaultHttpClient :: "string \<Rightarrow> HttpClient" where
  "NewDefaultHttpClient baseURL' =
     \<lparr>client = Some pooledClient, config = Some (NewDefaultHttpConfig baseURL')\<rparr>"

definition NewHttpClientWithConfig :: "HttpConfig option \<Rightarrow> HttpClient outcome" where
  "NewHttpClientWithConfig config' =
     (if config' = None then Panics (PanicMsg ''config is nil'')
      else Returns \<lparr>client = Some pooledClient, config = config'\<rparr>)"

definition NewHttpClientWithConfigAndClient ::
  "HttpConfig option \<Rightarrow> http_Client option \<Rightarrow> HttpClient outcome" where
  "NewHttpClientWithConfigAndClient config' client' =
     (if config' = None then Panics (PanicMsg ''config is nil'')
      else if client' = None then Panics (PanicMsg ''client is nil'')
      else Returns \<lparr>client = client', config = config'\<rparr>)"

section \<open>Assembling and executing requests\<close>

definition createDefaultContext :: "Context option \<Rightarrow> Context" where
  "createDefaultContext c =
     (case c of
        Some c' \<Rightarrow> context_WithTimeout c' defaultRequestTimeOut
      | None \<Rightarrow> context_WithTimeout Background defaultRequestTimeOut)"

text \<open>The context argument of \<^verbatim>\<open>createRequest\<close> is not used by its body.\<close>

definition createRequest ::
  "golib \<Rightarrow> Context option \<Rightarrow> string \<Rightarrow> string \<Rightarrow> string \<Rightarrow> string option \<Rightarrow> string \<Rightarrow> string
     \<Rightarrow> (Request option \<times> error option) outcome" where
  "createRequest L c baseURL' endpoint method body username' password' =
     (let baseURL' = TrimSuffix baseURL' ''/'';
          endpoint = TrimPrefix endpoint ''/'';
          (request, err) = NewRequest L method (baseURL' @ ''/'' @ endpoint) body
      in if err \<noteq> None then Returns (request, err)
         else and_then (deref request) (\<lambda>r.
           let r = Header_Set r ''Content-Type'' jsonType;
               r = Header_Set r ''Accept'' jsonType;
               r = (if username' \<noteq> [] \<and> password' \<noteq> [] then SetBasicAuth r username' password'
                    else r)
           in Returns (Some r, None)))"

text \<open>
  The statements of \<^verbatim>\<open>handleError\<close> that follow its call of \<^verbatim>\<open>log.Fatal\<close>: they read the
  status code and the request's URL through the response pointer.
\<close>

definition handleError_classify :: "golib \<Rightarrow> Response option \<Rightarrow> (Response option \<times> error option) outcome" where
  "handleError_classify L resp =
     and_then (deref resp) (\<lambda>rsp.
       if StatusCode rsp = StatusUnauthorized
       then and_then (deref (Request rsp)) (\<lambda>rq.
              Returns (resp, Some (UnauthorizedError ''Authentication required.''
                                     (URL_String L (URL rq)) 0)))
       else if StatusCode rsp = StatusNotFound
       then and_then (deref (Request rsp)) (\<lambda>rq.
              Returns (resp, Some (NotFoundError ''Resource not found.'' (URL_String L (URL rq)))))
       else and_then (deref (Request rsp)) (\<lambda>rq.
              Returns (resp, Some (RemoteError (Host (URL rq))
                (Errorf ''%d: (%s)'' [ArgInt (StatusCode rsp), ArgStr (URL_String L (URL rq))])))))"

definition handleError ::
  "golib \<Rightarrow> Response option \<Rightarrow> error \<Rightarrow> (Response option \<times> error option) outcome" where
  "handleError L resp err = and_then (log_Fatal err) (\<lambda>_. handleError_classify L resp)"

definition ExecuteRequest ::
  "golib \<Rightarrow> HttpClient \<Rightarrow> Request option \<Rightarrow> (Response option \<times> error option) outcome" where
  "ExecuteRequest L h r =
     and_then (deref r) (\<lambda>rq.
       and_then
         (if Request_Context rq = Background
          then Request_WithContext rq (Some (createDefaultContext (Some (Request_Context rq))))
          else Returns rq)
         (\<lambda>rq.
            and_then (deref (client h)) (\<lambda>c.
              case Client_Do L c rq of
                (resp, Some err) \<Rightarrow> handleError L resp err
              | (resp, None) \<Rightarrow> Returns (resp, None))))"

section \<open>The verb methods\<close>

text \<open>
  The four context-aware verbs end in the same statements: return the construction error if
  there is one, else copy the request with the caller's context and execute it.
\<close>

definition executeWithContext ::
  "golib \<Rightarrow> HttpClient \<Rightarrow> Context option \<Rightarrow> (Request option \<times> error option) outcome
     \<Rightarrow> (Response option \<times> error option) outcome" where
  "executeWithContext L h c created =
     and_then created (\<lambda>(request, err).
       if err \<noteq> None then Returns (None, err)
       else and_then (deref request) (\<lambda>rq.
              and_then (Request_WithContext rq c) (\<lambda>requestWithCtx.
                ExecuteRequest L h (Some requestWithCtx))))"

definition GetFromWithContext ::
  "golib \<Rightarrow> HttpClient \<Rightarrow> Context option \<Rightarrow> string \<Rightarrow> (Response option \<times> error option) outcome" where
  "GetFromWithContext L h c path' =
     and_then (deref (config h)) (\<lambda>cfg.
       executeWithContext L h c
         (createRequest L c (baseURL cfg) path' MethodGet None (username cfg) (password cfg)))"

definition PostToWithContext ::
  "golib \<Rightarrow> HttpClient \<Rightarrow> Context option \<Rightarrow> string \<Rightarrow> string option
     \<Rightarrow> (Response option \<times> error option) outcome" where
  "PostToWithContext L h c path' body =
     and_then (deref (config h)) (\<lambda>cfg.
       executeWithContext L h c
         (createRequest L c (baseURL cfg) path' MethodPost body (username cfg) (password cfg)))"

definition PutToWithContext ::
  "golib \<Rightarrow> HttpClient \<Rightarrow> Context option \<Rightarrow> string \<Rightarrow> string option
     \<Rightarrow> (Response option \<times> error option) outcome" where
  "PutToWithContext L h c path' body =
     and_then (deref (config h)) (\<lambda>cfg.
       executeWithContext L h c
         (createRequest L c (baseURL cfg) path' MethodPut body (username cfg) (password cfg)))"

definition DeleteFromWithContext ::
  "golib \<Rightarrow> HttpClient \<Rightarrow> Context option \<Rightarrow> string \<Rightarrow> (Response option \<times> error option) outcome" where
  "DeleteFromWithContext L h c path' =
     and_then (deref (config h)) (\<lambda>cfg.
       executeWithContext L h c
         (createRequest L c (baseURL cfg) path' MethodDelete None (username cfg) (password cfg)))"

definition GetFrom :: "golib \<Rightarrow> HttpClient \<Rightarrow> string \<Rightarrow> (Response option \<times> error option) outcome" where
  "GetFrom L h path' = GetFromWithContext L h (Some Background) path'"

definition PostTo ::
  "golib \<Rightarrow> HttpClient \<Rightarrow> string \<Rightarrow> string option \<Rightarrow> (Response option \<times> error option) outcome" where
  "PostTo L h path' body = PostToWithContext L h (Some Background) path' body"

definition PutTo ::
  "golib \<Rightarrow> HttpClient \<Rightarrow> string \<Rightarrow> string option \<Rightarrow> (Response option \<times> error option) outcome" where
  "PutTo L h path' body = PutToWithContext L h (Some Background) path' body"

definition DeleteFrom :: "golib \<Rightarrow> HttpClient \<Rightarrow> string \<Rightarrow> (Response option \<times> error option) outcome" where
  "DeleteFrom L h path' = DeleteFromWithContext L h (Some Background) path'"

definition GetRequest :: "golib \<Rightarrow> HttpClient \<Rightarrow> string \<Rightarrow> (Request option \<times> error option) outcome" where
  "GetRequest L h path' =
     and_then (deref (config h)) (\<lambda>cfg.
       createRequest L None (baseURL cfg) path' MethodGet None (username cfg) (password cfg))"

definition PostRequest ::
  "golib \<Rightarrow> HttpClient \<Rightarrow> string \<Rightarrow> string option \<Rightarrow> (Request option \<times> error option) outcome" where
  "PostRequest L h path' body =
     and_then (deref (config h)) (\<lambda>cfg.
       createRequest L None (baseURL cfg) path' MethodPost body (username cfg) (password cfg))"

definition PutRequest ::
  "golib \<Rightarrow> HttpClient \<Rightarrow> string \<Rightarrow> string option \<Rightarrow> (Request option \<times> error option) outcome" where
  "PutRequest L h path' body =
     and_then (deref (config h)) (\<lambda>cfg.
       createRequest L None (baseURL cfg) path' MethodPut body (username cfg) (password cfg))"

definition DeleteRequest :: "golib \<Rightarrow> HttpClient \<Rightarrow> string \<Rightarrow> (Request option \<times> error option) outcome" where
  "DeleteRequest L h path' =
     and_then (deref (config h)) (\<lambda>cfg.
       createRequest L None (baseURL cfg) path' MethodDelete None (username cfg) (password cfg))"

section \<open>The request builder\<close>

text \<open>
  \<open>method_rb\<close> and \<open>Path_rb\<close> stand for the field \<^verbatim>\<open>method\<close> and the method \<^verbatim>\<open>Path\<close>.
  \<open>queryParams\<close> is \<open>None\<close> while the Go map is nil. \<^verbatim>\<open>QueryParam\<close> is the only writer of the
  map and stores strings, so the map's values are strings here.
\<close>

record requestBuilder =
  method_rb :: string
  path :: string
  queryParams :: "(string \<rightharpoonup> string) option"
  body :: "string option"
  request :: "Request option"
  accept :: string

definition NewRequestBuilder :: requestBuilder where
  "NewRequestBuilder =
     \<lparr>method_rb = [], path = [], queryParams = None, body = None, request = None, accept = []\<rparr>"

definition Get :: "requestBuilder \<Rightarrow> requestBuilder" where
  "Get rb = rb\<lparr>method_rb := MethodGet\<rparr>"

definition Post :: "requestBuilder \<Rightarrow> requestBuilder" where
  "Post rb = rb\<lparr>method_rb := MethodPost\<rparr>"

definition Put :: "requestBuilder \<Rightarrow> requestBuilder" where
  "Put rb = rb\<lparr>method_rb := MethodPut\<rparr>"

definition Delete :: "requestBuilder \<Rightarrow> requestBuilder" where
  "Delete rb = rb\<lparr>method_rb := MethodDelete\<rparr>"

definition Path_rb :: "requestBuilder \<Rightarrow> string \<Rightarrow> requestBuilder" where
  "Path_rb rb path' = rb\<lparr>path := path'\<rparr>"

definition WithContent :: "requestBuilder \<Rightarrow> string option \<Rightarrow> requestBuilder" where
  "WithContent rb body' = rb\<lparr>body := body'\<rparr>"

definition AsJson :: "requestBuilder \<Rightarrow> requestBuilder" where
  "AsJson rb = rb\<lparr>accept := jsonType\<rparr>"

definition QueryParam :: "requestBuilder \<Rightarrow> string \<Rightarrow> string \<Rightarrow> requestBuilder" where
  "QueryParam rb key v =
     (let rb = (if queryParams rb = None then rb\<lparr>queryParams := Some Map.empty\<rparr> else rb)
      in rb\<lparr>queryParams := map_option (\<lambda>m. m(key \<mapsto> v)) (queryParams rb)\<rparr>)"

text \<open>
  \<^verbatim>\<open>Build\<close> reads \<^verbatim>\<open>request.URL\<close> for the query parameters before it looks at the error of
  \<^verbatim>\<open>http.NewRequest\<close>.
\<close>

definition Build :: "golib \<Rightarrow> requestBuilder \<Rightarrow> (Request option \<times> error option) outcome" where
  "Build L rb =
     (let (request, err) = NewRequest L (method_rb rb) (path rb) (body rb) in
      and_then
        (case queryParams rb of
           None \<Rightarrow> Returns request
         | Some params \<Rightarrow>
             and_then (deref request) (\<lambda>rq.
               Returns (Some (rq\<lparr>URL := (URL rq)\<lparr>RawQuery :=
                                 Values_Encode L (RawQuery (URL rq)) params\<rparr>\<rparr>))))
        (\<lambda>request. if err \<noteq> None then Returns (request, err) else Returns (request, None)))"

section \<open>Library instances for examples\<close>

text \<open>
  Closed examples need a concrete library. As \<^verbatim>\<open>mockServer\<close> of the repository's tests does, the first
  one answers every request with a fixed status and body and no error; its response names the
  request that was sent. Its parser keeps the whole string as the path and rejects a string
  that starts with a colon, which \<^verbatim>\<open>url.Parse\<close> rejects too (missing protocol scheme). The
  second one fails every round trip, as a refused connection does.
\<close>

definition mockParse :: "string \<Rightarrow> error + URL" where
  "mockParse s =
     (if HasPrefix s '':'' then Inl (errorString ''missing protocol scheme'')
      else Inr \<lparr>Scheme = [], Host = [], Path = s, RawQuery = []\<rparr>)"

definition mockServer :: "int \<Rightarrow> string \<Rightarrow> golib" where
  "mockServer statusCode content =
     \<lparr>url_Parse = mockParse, URL_String = Path,
      Client_Do = (\<lambda>c r. (Some \<lparr>StatusCode = statusCode, RespBody = content, Request = Some r\<rparr>,
                           None)),
      Values_Encode = (\<lambda>q params. q)\<rparr>"

definition refusedServer :: golib where
  "refusedServer =
     \<lparr>url_Parse = mockParse, URL_String = Path,
      Client_Do = (\<lambda>c r. (None, Some (errorString ''connection refused''))),
      Values_Encode = (\<lambda>q params. q)\<rparr>"

section \<open>The spec's reading of the joined URL\<close>

text \<open>
  Exactly one separating slash: the base without its trailing slashes, one slash, the path
  without its leading slashes.
\<close>

definition spec_joined_url :: "string \<Rightarrow> string \<Rightarrow> string" where
  "spec_joined_url base p =
     rev (dropWhile (\<lambda>c. c = CHR ''/'') (rev base)) @ ''/'' @ dropWhile (\<lambda>c. c = CHR ''/'') p"

section \<open>Facts about the library functions\<close>

lemma TrimSuffix_slash:
  "TrimSuffix s ''/'' = (if s \<noteq> [] \<and> last s = CHR ''/'' then butlast s else s)"
proof (cases s rule: rev_cases)
  case Nil
  then show ?thesis by (simp add: TrimSuffix_def HasSuffix_def)
next
  case (snoc ys y)
  then show ?thesis by (simp add: TrimSuffix_def HasSuffix_def)
qed

lemma TrimPrefix_slash:
  "TrimPrefix s ''/'' = (if s \<noteq> [] \<and> hd s = CHR ''/'' then tl s else s)"
  by (cases s) (simp_all add: TrimPrefix_def HasPrefix_def)

section \<open>Facts about the functions of client.go\<close>

lemma createRequest_Some:
  assumes "createRequest L c b e m bd u p = Returns (Some r, err)"
  shows "\<exists>r0. NewRequest L m (TrimSuffix b ''/'' @ ''/'' @ TrimPrefix e ''/'') bd = (Some r0, None)
     \<and> err = None
     \<and> r = (let r1 = Header_Set (Header_Set r0 ''Content-Type'' jsonType) ''Accept'' jsonType
            in if u \<noteq> [] \<and> p \<noteq> [] then SetBasicAuth r1 u p else r1)"
  using assms
  by (auto simp: createRequest_def Let_def NewRequest_def split: prod.splits if_splits sum.splits option.splits)

lemma NewRequest_Some:
  assumes "NewRequest L m s bd = (Some r0, err)"
  shows "url_Parse L s = Inr (URL r0) \<and> Header r0 = Map.empty \<and> ctx r0 = Some Background \<and> Body r0 = bd"
  using assms
  by (auto simp: NewRequest_def Let_def split: if_splits sum.splits)

lemma dropWhile_slash_once:
  assumes "\<not> HasPrefix e ''//''"
  shows "dropWhile (\<lambda>c. c = CHR ''/'') e = TrimPrefix e ''/''"
proof (cases e)
  case Nil
  then show ?thesis by (simp add: TrimPrefix_def HasPrefix_def)
next
  case (Cons x xs)
  show ?thesis
  proof (cases "x = CHR ''/''")
    case True
    with Cons assms have "xs = [] \<or> hd xs \<noteq> CHR ''/''"
      by (cases xs) (auto simp: HasPrefix_def)
    then have "dropWhile (\<lambda>c. c = CHR ''/'') xs = xs"
      by (cases xs) auto
    with Cons True show ?thesis by (simp add: TrimPrefix_def HasPrefix_def)
  next
    case False
    with Cons show ?thesis by (simp add: TrimPrefix_def HasPrefix_def)
  qed
qed

lemma HasSuffix_rev: "HasSuffix s t = HasPrefix (rev s) (rev t)"
  by (auto simp: HasSuffix_def HasPrefix_def take_rev rev_swap)

lemma TrimSuffix_rev: "TrimSuffix s t = rev (TrimPrefix (rev s) (rev t))"
  by (simp add: TrimSuffix_def TrimPrefix_def HasSuffix_rev rev_drop)

lemma dropWhileEnd_slash_once:
  assumes "\<not> HasSuffix b ''//''"
  shows "rev (dropWhile (\<lambda>c. c = CHR ''/'') (rev b)) = TrimSuffix b ''/''"
proof -
  from assms have "\<not> HasPrefix (rev b) ''//''" by (simp add: HasSuffix_rev)
  from dropWhile_slash_once [OF this] show ?thesis by (simp add: TrimSuffix_rev)
qed

lemma handleError_Exits: "handleError L resp err = Exits 1"
  by (simp add: handleError_def log_Fatal_def)

lemma ExecuteRequest_unfold:
  assumes "client h = Some cl"
  shows "ExecuteRequest L h (Some r) =
           (case Client_Do L cl
                   (if Request_Context r = Background
                    then r\<lparr>ctx := Some (WithTimeout Background 30000000000)\<rparr> else r) of
              (resp, Some err) \<Rightarrow> handleError L resp err
            | (resp, None) \<Rightarrow> Returns (resp, None))"
  using assms
  by (simp add: ExecuteRequest_def Request_WithContext_def createDefaultContext_def
      context_WithTimeout_def defaultRequestTimeOut_def Second_def)

lemma Build_error_with_params:
  assumes "NewRequest L (method_rb rb) (path rb) (body rb) = (None, Some e)"
  shows "Build L rb = (if queryParams rb = None then Returns (None, Some e)
                       else Panics NilPointerDereference)"
  using assms by (auto simp: Build_def split: option.splits)

lemma handleError_classify_statuses:
  assumes "Request rsp = Some rq"
  shows "handleError_classify L (Some rsp) =
           Returns (Some rsp, Some (
             if StatusCode rsp = 401
             then UnauthorizedError ''Authentication required.'' (URL_String L (URL rq)) 0
             else if StatusCode rsp = 404
             then NotFoundError ''Resource not found.'' (URL_String L (URL rq))
             else RemoteError (Host (URL rq))
                    (Errorf ''%d: (%s)'' [ArgInt (StatusCode rsp), ArgStr (URL_String L (URL rq))])))"
  using assms
  by (simp add: handleError_classify_def StatusUnauthorized_def StatusNotFound_def)

lemmas eval_defs = createRequest_def NewHttpConfig_def Let_def TrimSuffix_def TrimPrefix_def
        HasSuffix_def HasPrefix_def NewRequest_def MethodGet_def validMethod_def isTokenRune_def
        mockServer_def mockParse_def Header_Set_def jsonType_def

lemmas exec_defs = ExecuteRequest_def Request_WithContext_def createDefaultContext_def
      context_WithTimeout_def defaultRequestTimeOut_def Second_def NewDefaultHttpClient_def
      Request_Context_def mockServer_def refusedServer_def handleError_def log_Fatal_def

section \<open>Configuration\<close>

text \<open>
  C8. For all arguments, \<^verbatim>\<open>NewHttpConfig\<close> returns a configuration whose accept field is the JSON
  media type when the accept argument is empty and the accept argument otherwise, with the
  base URL, user name and password copied; \<^verbatim>\<open>NewDefaultHttpConfig(baseURL)\<close> equals
  \<^verbatim>\<open>NewHttpConfig(baseURL, "", "", jsonType)\<close>.
\<close>

theorem NewHttpConfig_fields:
  "HttpConfig.accept (NewHttpConfig b u p a) = (if a = [] then ''application/json'' else a)
   \<and> baseURL (NewHttpConfig b u p a) = b
   \<and> username (NewHttpConfig b u p a) = u
   \<and> password (NewHttpConfig b u p a) = p
   \<and> NewDefaultHttpConfig b = NewHttpConfig b [] [] jsonType
   \<and> NewDefaultHttpConfig b =
       \<lparr>baseURL = b, username = [], password = [], accept = ''application/json''\<rparr>"
  by (simp add: NewHttpConfig_def NewDefaultHttpConfig_def jsonType_def Let_def)

section \<open>Constructors\<close>

text \<open>
  C9. \<^verbatim>\<open>NewHttpClientWithConfig\<close> with a nil configuration, and
  \<^verbatim>\<open>NewHttpClientWithConfigAndClient\<close> with a nil configuration or a nil client, panic and return
  nothing; with every argument present they return the client normally.
\<close>

theorem constructors_panic_on_nil:
  "NewHttpClientWithConfig None = Panics (PanicMsg ''config is nil'')
   \<and> NewHttpClientWithConfigAndClient None cl' = Panics (PanicMsg ''config is nil'')
   \<and> NewHttpClientWithConfigAndClient (Some cfg) None = Panics (PanicMsg ''client is nil'')
   \<and> NewHttpClientWithConfig (Some cfg) =
       Returns \<lparr>client = Some pooledClient, config = Some cfg\<rparr>
   \<and> NewHttpClientWithConfigAndClient (Some cfg) (Some cl) =
       Returns \<lparr>client = Some cl, config = Some cfg\<rparr>"
  by (simp add: NewHttpClientWithConfig_def NewHttpClientWithConfigAndClient_def)

section \<open>The request assembler\<close>

text \<open>
  A base URL with two trailing slashes keeps one of them after the trim, so the assembled URL
  has two slashes where the spec's reading has one.
\<close>

theorem createRequest_double_slash_counterexample:
  "createRequest (mockServer 200 []) None ''https://h/api//'' ''/items'' MethodGet None [] []
    = Returns (Some \<lparr>Method = ''GET'',
                      URL = \<lparr>Scheme = [], Host = [], Path = ''https://h/api//items'', RawQuery = []\<rparr>,
                      Header = [''Content-Type'' \<mapsto> [''application/json''],
                                ''Accept'' \<mapsto> [''application/json'']],
                      Body = None, ctx = Some Background\<rparr>, None)
   \<and> spec_joined_url ''https://h/api//'' ''/items'' = ''https://h/api/items''
   \<and> ''https://h/api//items'' \<noteq> spec_joined_url ''https://h/api//'' ''/items''"
  by (simp add: eval_defs spec_joined_url_def)

text \<open>
  C3 (amended). For every base URL and every path, \<^verbatim>\<open>createRequest\<close> hands to the request
  constructor the base URL without one trailing slash, a slash, and the path without one
  leading slash; when the base URL has at most one trailing slash and the path at most one
  leading slash, this is the URL with exactly one separating slash.
\<close>

theorem createRequest_joins_trimmed:
  assumes "createRequest L c b e m bd u p = Returns (Some r, err)"
  shows "url_Parse L (TrimSuffix b ''/'' @ ''/'' @ TrimPrefix e ''/'') = Inr (URL r)
       \<and> TrimSuffix b ''/'' = (if b \<noteq> [] \<and> last b = CHR ''/'' then butlast b else b)
       \<and> TrimPrefix e ''/'' = (if e \<noteq> [] \<and> hd e = CHR ''/'' then tl e else e)
       \<and> (\<not> HasSuffix b ''//'' \<and> \<not> HasPrefix e ''//'' \<longrightarrow>
            TrimSuffix b ''/'' @ ''/'' @ TrimPrefix e ''/'' = spec_joined_url b e)"
proof -
  from createRequest_Some [OF assms] obtain r0 where
    n: "NewRequest L m (TrimSuffix b ''/'' @ ''/'' @ TrimPrefix e ''/'') bd = (Some r0, None)" and
    r: "r = (let r1 = Header_Set (Header_Set r0 ''Content-Type'' jsonType) ''Accept'' jsonType
             in if u \<noteq> [] \<and> p \<noteq> [] then SetBasicAuth r1 u p else r1)"
    by blast
  have "URL r = URL r0"
    by (simp add: r Let_def Header_Set_def SetBasicAuth_def)
  with NewRequest_Some [OF n]
  have 1: "url_Parse L (TrimSuffix b ''/'' @ ''/'' @ TrimPrefix e ''/'') = Inr (URL r)"
    by simp
  have 2: "\<not> HasSuffix b ''//'' \<and> \<not> HasPrefix e ''//'' \<longrightarrow>
            TrimSuffix b ''/'' @ ''/'' @ TrimPrefix e ''/'' = spec_joined_url b e"
    by (simp add: spec_joined_url_def dropWhile_slash_once dropWhileEnd_slash_once)
  from 1 2 TrimSuffix_slash [of b] TrimPrefix_slash [of e] show ?thesis
    by blast
qed

text \<open>
  The theorem at the spec's example: base \<^verbatim>\<open>https://h/api/\<close> and path \<^verbatim>\<open>/items\<close>.
\<close>

theorem createRequest_joins_trimmed_witness:
  "createRequest (mockServer 200 []) None ''https://h/api/'' ''/items'' MethodGet None [] []
    = Returns (Some \<lparr>Method = ''GET'',
                      URL = \<lparr>Scheme = [], Host = [], Path = ''https://h/api/items'', RawQuery = []\<rparr>,
                      Header = [''Content-Type'' \<mapsto> [''application/json''],
                                ''Accept'' \<mapsto> [''application/json'']],
                      Body = None, ctx = Some Background\<rparr>, None)
   \<and> \<not> HasSuffix ''https://h/api/'' ''//'' \<and> \<not> HasPrefix ''/items'' ''//''
   \<and> TrimSuffix ''https://h/api/'' ''/'' = ''https://h/api''
   \<and> TrimPrefix ''/items'' ''/'' = ''items''
   \<and> spec_joined_url ''https://h/api/'' ''/items'' = ''https://h/api/items''
   \<and> url_Parse (mockServer 200 []) ''https://h/api/items''
       = Inr \<lparr>Scheme = [], Host = [], Path = ''https://h/api/items'', RawQuery = []\<rparr>"
proof -
  let ?r = "\<lparr>Method = ''GET'',
                      URL = \<lparr>Scheme = [], Host = [], Path = ''https://h/api/items'', RawQuery = []\<rparr>,
                      Header = [''Content-Type'' \<mapsto> [''application/json''],
                                ''Accept'' \<mapsto> [''application/json'']],
                      Body = None, ctx = Some Background\<rparr>"
  have h: "createRequest (mockServer 200 []) None ''https://h/api/'' ''/items'' MethodGet None [] []
            = Returns (Some ?r, None)"
    by (simp add: eval_defs)
  have s: "\<not> HasSuffix ''https://h/api/'' ''//''" "\<not> HasPrefix ''/items'' ''//''"
    by (simp_all add: HasSuffix_def HasPrefix_def)
  have t: "TrimSuffix ''https://h/api/'' ''/'' = ''https://h/api''" "TrimPrefix ''/items'' ''/'' = ''items''"
    by (simp_all add: TrimSuffix_def TrimPrefix_def HasSuffix_def HasPrefix_def)
  from createRequest_joins_trimmed [OF h] h s t show ?thesis
    by (simp add: spec_joined_url_def)
qed

text \<open>
  C4. For every configuration, a request produced by \<^verbatim>\<open>createRequest\<close> from its fields has the
  headers Content-Type and Accept, both with the single value \<^verbatim>\<open>application/json\<close>; changing
  the configuration's accept value changes nothing.
\<close>

theorem createRequest_json_headers:
  assumes "createRequest L c (baseURL cfg) e m bd (username cfg) (password cfg) = Returns (Some r, err)"
  shows "Header r ''Content-Type'' = Some [''application/json'']
       \<and> Header r ''Accept'' = Some [''application/json'']
       \<and> createRequest L c (baseURL (cfg\<lparr>HttpConfig.accept := a\<rparr>)) e m bd
            (username (cfg\<lparr>HttpConfig.accept := a\<rparr>)) (password (cfg\<lparr>HttpConfig.accept := a\<rparr>))
          = Returns (Some r, err)"
proof -
  from createRequest_Some [OF assms] obtain r0 where
    r: "r = (let r1 = Header_Set (Header_Set r0 ''Content-Type'' jsonType) ''Accept'' jsonType
             in if username cfg \<noteq> [] \<and> password cfg \<noteq> [] then SetBasicAuth r1 (username cfg) (password cfg) else r1)"
    by blast
  have "Header r ''Content-Type'' = Some [jsonType]" "Header r ''Accept'' = Some [jsonType]"
    by (simp_all add: r Let_def Header_Set_def SetBasicAuth_def)
  with assms show ?thesis by (simp add: jsonType_def)
qed

text \<open>
  The theorem at a configuration whose accept value is \<^verbatim>\<open>text/xml\<close>.
\<close>

theorem createRequest_json_headers_witness:
  "createRequest (mockServer 200 []) None (baseURL (NewHttpConfig ''https://h/api/'' [] [] ''text/xml''))
      ''/items'' MethodGet None
      (username (NewHttpConfig ''https://h/api/'' [] [] ''text/xml''))
      (password (NewHttpConfig ''https://h/api/'' [] [] ''text/xml''))
    = Returns (Some \<lparr>Method = ''GET'',
                      URL = \<lparr>Scheme = [], Host = [], Path = ''https://h/api/items'', RawQuery = []\<rparr>,
                      Header = [''Content-Type'' \<mapsto> [''application/json''],
                                ''Accept'' \<mapsto> [''application/json'']],
                      Body = None, ctx = Some Background\<rparr>, None)
   \<and> HttpConfig.accept (NewHttpConfig ''https://h/api/'' [] [] ''text/xml'') = ''text/xml''
   \<and> [''Content-Type'' \<mapsto> [''application/json''], ''Accept'' \<mapsto> [''application/json'']] ''Accept''
       = Some [''application/json'']"
proof -
  let ?cfg = "NewHttpConfig ''https://h/api/'' [] [] ''text/xml''"
  let ?r = "\<lparr>Method = ''GET'',
                      URL = \<lparr>Scheme = [], Host = [], Path = ''https://h/api/items'', RawQuery = []\<rparr>,
                      Header = [''Content-Type'' \<mapsto> [''application/json''],
                                ''Accept'' \<mapsto> [''application/json'']],
                      Body = None, ctx = Some Background\<rparr>"
  have h: "createRequest (mockServer 200 []) None (baseURL ?cfg) ''/items'' MethodGet None
             (username ?cfg) (password ?cfg) = Returns (Some ?r, None)"
    by (simp add: createRequest_def NewHttpConfig_def Let_def TrimSuffix_def TrimPrefix_def
        HasSuffix_def HasPrefix_def NewRequest_def MethodGet_def validMethod_def isTokenRune_def
        mockServer_def mockParse_def Header_Set_def jsonType_def)
  from createRequest_json_headers [OF h] h show ?thesis
    by (simp add: NewHttpConfig_def)
qed

text \<open>
  C7. For every configuration with a non-empty user name and a non-empty password, the
  request produced by \<^verbatim>\<open>createRequest\<close> has an Authorization header with the single value
  \<^verbatim>\<open>Basic\<close>, a space, and the base64 encoding of user name, colon, password; when either is
  empty the request has no Authorization header.
\<close>

theorem createRequest_basic_auth:
  assumes "createRequest L c (baseURL cfg) e m bd (username cfg) (password cfg) = Returns (Some r, err)"
  shows "(username cfg \<noteq> [] \<and> password cfg \<noteq> [] \<longrightarrow>
            Header r ''Authorization'' =
              Some [''Basic '' @ EncodeToString (bytes (username cfg @ '':'' @ password cfg))])
       \<and> (username cfg = [] \<or> password cfg = [] \<longrightarrow> Header r ''Authorization'' = None)"
proof -
  from createRequest_Some [OF assms] obtain r0 where
    n: "NewRequest L m (TrimSuffix (baseURL cfg) ''/'' @ ''/'' @ TrimPrefix e ''/'') bd = (Some r0, None)" and
    r: "r = (let r1 = Header_Set (Header_Set r0 ''Content-Type'' jsonType) ''Accept'' jsonType
             in if username cfg \<noteq> [] \<and> password cfg \<noteq> [] then SetBasicAuth r1 (username cfg) (password cfg) else r1)"
    by blast
  from NewRequest_Some [OF n] have "Header r0 = Map.empty" by simp
  then show ?thesis
    by (auto simp: r Let_def Header_Set_def SetBasicAuth_def basicAuth_def)
qed

text \<open>
  The theorem at the credentials of RFC 7617's example, and at an empty password.
\<close>

theorem createRequest_basic_auth_witness:
  "createRequest (mockServer 200 []) None
      (baseURL (NewHttpConfig ''https://h/api'' ''Aladdin'' ''open sesame'' []))
      ''items'' MethodGet None
      (username (NewHttpConfig ''https://h/api'' ''Aladdin'' ''open sesame'' []))
      (password (NewHttpConfig ''https://h/api'' ''Aladdin'' ''open sesame'' []))
    = Returns (Some \<lparr>Method = ''GET'',
                      URL = \<lparr>Scheme = [], Host = [], Path = ''https://h/api/items'', RawQuery = []\<rparr>,
                      Header = [''Content-Type'' \<mapsto> [''application/json''],
                                ''Accept'' \<mapsto> [''application/json''],
                                ''Authorization'' \<mapsto> [''Basic QWxhZGRpbjpvcGVuIHNlc2FtZQ=='']],
                      Body = None, ctx = Some Background\<rparr>, None)
   \<and> ''Basic '' @ EncodeToString (bytes (''Aladdin'' @ '':'' @ ''open sesame''))
       = ''Basic QWxhZGRpbjpvcGVuIHNlc2FtZQ==''
   \<and> createRequest (mockServer 200 []) None
      (baseURL (NewHttpConfig ''https://h/api'' ''Aladdin'' [] []))
      ''items'' MethodGet None
      (username (NewHttpConfig ''https://h/api'' ''Aladdin'' [] []))
      (password (NewHttpConfig ''https://h/api'' ''Aladdin'' [] []))
    = Returns (Some \<lparr>Method = ''GET'',
                      URL = \<lparr>Scheme = [], Host = [], Path = ''https://h/api/items'', RawQuery = []\<rparr>,
                      Header = [''Content-Type'' \<mapsto> [''application/json''],
                                ''Accept'' \<mapsto> [''application/json'']],
                      Body = None, ctx = Some Background\<rparr>, None)
   \<and> [''Content-Type'' \<mapsto> [''application/json''],
        ''Accept'' \<mapsto> [''application/json'']] ''Authorization'' = None"
proof -
  let ?cfg = "NewHttpConfig ''https://h/api'' ''Aladdin'' ''open sesame'' []"
  let ?cfg' = "NewHttpConfig ''https://h/api'' ''Aladdin'' [] []"
  let ?r = "\<lparr>Method = ''GET'',
                      URL = \<lparr>Scheme = [], Host = [], Path = ''https://h/api/items'', RawQuery = []\<rparr>,
                      Header = [''Content-Type'' \<mapsto> [''application/json''],
                                ''Accept'' \<mapsto> [''application/json''],
                                ''Authorization'' \<mapsto> [''Basic QWxhZGRpbjpvcGVuIHNlc2FtZQ=='']],
                      Body = None, ctx = Some Background\<rparr>"
  let ?r' = "\<lparr>Method = ''GET'',
                      URL = \<lparr>Scheme = [], Host = [], Path = ''https://h/api/items'', RawQuery = []\<rparr>,
                      Header = [''Content-Type'' \<mapsto> [''application/json''],
                                ''Accept'' \<mapsto> [''application/json'']],
                      Body = None, ctx = Some Background\<rparr>"
  have b: "EncodeToString (bytes (''Aladdin'' @ '':'' @ ''open sesame'')) = ''QWxhZGRpbjpvcGVuIHNlc2FtZQ==''"
    by code_simp
  have h: "createRequest (mockServer 200 []) None (baseURL ?cfg) ''items'' MethodGet None
             (username ?cfg) (password ?cfg) = Returns (Some ?r, None)"
    using b by (simp add: eval_defs SetBasicAuth_def basicAuth_def)
  have h': "createRequest (mockServer 200 []) None (baseURL ?cfg') ''items'' MethodGet None
             (username ?cfg') (password ?cfg') = Returns (Some ?r', None)"
    by (simp add: eval_defs)
  from createRequest_basic_auth [OF h] createRequest_basic_auth [OF h'] h h' b show ?thesis
    by (simp add: NewHttpConfig_def)
qed

section \<open>The executor\<close>

text \<open>
  C1. A round trip that fails with a connection error: \<^verbatim>\<open>ExecuteRequest\<close> does not return
  the error, the process exits with status 1 in \<^verbatim>\<open>log.Fatal\<close>.
\<close>

theorem ExecuteRequest_transport_error_exits:
  "Client_Do refusedServer pooledClient
      \<lparr>Method = ''GET'', URL = \<lparr>Scheme = [], Host = [], Path = ''http://localhost:9/items'', RawQuery = []\<rparr>,
       Header = Map.empty, Body = None, ctx = Some (WithTimeout Background 30000000000)\<rparr>
     = (None, Some (errorString ''connection refused''))
   \<and> ExecuteRequest refusedServer (NewDefaultHttpClient ''http://localhost:9'')
        (Some \<lparr>Method = ''GET'',
               URL = \<lparr>Scheme = [], Host = [], Path = ''http://localhost:9/items'', RawQuery = []\<rparr>,
               Header = Map.empty, Body = None, ctx = Some Background\<rparr>) = Exits 1
   \<and> GetFrom refusedServer (NewDefaultHttpClient ''http://localhost:9'') ''items'' = Exits 1"
  by (simp add: exec_defs eval_defs GetFrom_def GetFromWithContext_def executeWithContext_def
      NewDefaultHttpConfig_def Request_WithContext_def)

text \<open>
  C2. A response with status 401 or 404 and no transport error is returned as it is, with a
  nil error: \<^verbatim>\<open>handleError\<close> is not called on this path.
\<close>

theorem ExecuteRequest_status_not_classified:
  "ExecuteRequest (mockServer 401 []) (NewDefaultHttpClient ''https://h'')
        (Some \<lparr>Method = ''GET'',
               URL = \<lparr>Scheme = [], Host = [], Path = ''https://h/items'', RawQuery = []\<rparr>,
               Header = Map.empty, Body = None, ctx = Some Background\<rparr>)
       = Returns (Some \<lparr>StatusCode = 401, RespBody = [],
                         Request = Some \<lparr>Method = ''GET'',
                           URL = \<lparr>Scheme = [], Host = [], Path = ''https://h/items'', RawQuery = []\<rparr>,
                           Header = Map.empty, Body = None,
                           ctx = Some (WithTimeout Background 30000000000)\<rparr>\<rparr>, None)
   \<and> ExecuteRequest (mockServer 404 []) (NewDefaultHttpClient ''https://h'')
        (Some \<lparr>Method = ''GET'',
               URL = \<lparr>Scheme = [], Host = [], Path = ''https://h/items'', RawQuery = []\<rparr>,
               Header = Map.empty, Body = None, ctx = Some Background\<rparr>)
       = Returns (Some \<lparr>StatusCode = 404, RespBody = [],
                         Request = Some \<lparr>Method = ''GET'',
                           URL = \<lparr>Scheme = [], Host = [], Path = ''https://h/items'', RawQuery = []\<rparr>,
                           Header = Map.empty, Body = None,
                           ctx = Some (WithTimeout Background 30000000000)\<rparr>\<rparr>, None)"
  by (simp add: exec_defs)

text \<open>
  A request whose context is not the background context and has no deadline is dispatched
  with that context: directly with \<^verbatim>\<open>context.TODO()\<close>, and through a context-aware verb with
  a cancellable context.
\<close>

theorem ExecuteRequest_no_deadline_counterexample:
  "Deadline (Request_Context
      \<lparr>Method = ''GET'', URL = \<lparr>Scheme = [], Host = [], Path = ''https://h/items'', RawQuery = []\<rparr>,
       Header = Map.empty, Body = None, ctx = Some TODO\<rparr>) = None
   \<and> ExecuteRequest (mockServer 200 []) (NewDefaultHttpClient ''https://h'')
        (Some \<lparr>Method = ''GET'',
               URL = \<lparr>Scheme = [], Host = [], Path = ''https://h/items'', RawQuery = []\<rparr>,
               Header = Map.empty, Body = None, ctx = Some TODO\<rparr>)
       = Returns (Some \<lparr>StatusCode = 200, RespBody = [],
                         Request = Some \<lparr>Method = ''GET'',
                           URL = \<lparr>Scheme = [], Host = [], Path = ''https://h/items'', RawQuery = []\<rparr>,
                           Header = Map.empty, Body = None, ctx = Some TODO\<rparr>\<rparr>, None)
   \<and> Deadline TODO = None
   \<and> GetFromWithContext (mockServer 200 []) (NewDefaultHttpClient ''https://h'')
        (Some (WithCancel Background)) ''items''
       = Returns (Some \<lparr>StatusCode = 200, RespBody = [],
                         Request = Some \<lparr>Method = ''GET'',
                           URL = \<lparr>Scheme = [], Host = [], Path = ''https://h/items'', RawQuery = []\<rparr>,
                           Header = [''Content-Type'' \<mapsto> [''application/json''],
                                     ''Accept'' \<mapsto> [''application/json'']],
                           Body = None, ctx = Some (WithCancel Background)\<rparr>\<rparr>, None)
   \<and> Deadline (WithCancel Background) = None"
  by (simp add: exec_defs eval_defs GetFromWithContext_def executeWithContext_def
      NewDefaultHttpConfig_def Request_WithContext_def)

text \<open>
  C5 (amended). A request whose context is the background context is dispatched with a
  context that has the default timeout of 30 seconds; a request with any other context is
  dispatched as it is.
\<close>

theorem ExecuteRequest_default_deadline:
  assumes "client h = Some cl"
  shows "(Request_Context r = Background \<longrightarrow>
            ExecuteRequest L h (Some r) =
              (case Client_Do L cl (r\<lparr>ctx := Some (WithTimeout Background 30000000000)\<rparr>) of
                 (resp, Some err) \<Rightarrow> handleError L resp err
               | (resp, None) \<Rightarrow> Returns (resp, None))
            \<and> Deadline (WithTimeout Background 30000000000) = Some 30000000000)
       \<and> (Request_Context r \<noteq> Background \<longrightarrow>
            ExecuteRequest L h (Some r) =
              (case Client_Do L cl r of
                 (resp, Some err) \<Rightarrow> handleError L resp err
               | (resp, None) \<Rightarrow> Returns (resp, None)))"
  by (simp add: ExecuteRequest_unfold [OF assms])

text \<open>
  The theorem at a request with the background context and at one with a value context.
\<close>

theorem ExecuteRequest_default_deadline_witness:
  "client (NewDefaultHttpClient ''https://h'') = Some pooledClient
   \<and> Request_Context
        \<lparr>Method = ''GET'', URL = \<lparr>Scheme = [], Host = [], Path = ''https://h/items'', RawQuery = []\<rparr>,
         Header = Map.empty, Body = None, ctx = Some Background\<rparr> = Background
   \<and> ExecuteRequest (mockServer 200 []) (NewDefaultHttpClient ''https://h'')
        (Some \<lparr>Method = ''GET'',
               URL = \<lparr>Scheme = [], Host = [], Path = ''https://h/items'', RawQuery = []\<rparr>,
               Header = Map.empty, Body = None, ctx = Some Background\<rparr>)
       = Returns (Some \<lparr>StatusCode = 200, RespBody = [],
                         Request = Some \<lparr>Method = ''GET'',
                           URL = \<lparr>Scheme = [], Host = [], Path = ''https://h/items'', RawQuery = []\<rparr>,
                           Header = Map.empty, Body = None,
                           ctx = Some (WithTimeout Background 30000000000)\<rparr>\<rparr>, None)
   \<and> Deadline (WithTimeout Background 30000000000) = Some 30000000000
   \<and> Request_Context
        \<lparr>Method = ''GET'', URL = \<lparr>Scheme = [], Host = [], Path = ''https://h/items'', RawQuery = []\<rparr>,
         Header = Map.empty, Body = None, ctx = Some (WithValue Background ''k'' ''v'')\<rparr> \<noteq> Background
   \<and> ExecuteRequest (mockServer 200 []) (NewDefaultHttpClient ''https://h'')
        (Some \<lparr>Method = ''GET'',
               URL = \<lparr>Scheme = [], Host = [], Path = ''https://h/items'', RawQuery = []\<rparr>,
               Header = Map.empty, Body = None, ctx = Some (WithValue Background ''k'' ''v'')\<rparr>)
       = Returns (Some \<lparr>StatusCode = 200, RespBody = [],
                         Request = Some \<lparr>Method = ''GET'',
                           URL = \<lparr>Scheme = [], Host = [], Path = ''https://h/items'', RawQuery = []\<rparr>,
                           Header = Map.empty, Body = None,
                           ctx = Some (WithValue Background ''k'' ''v'')\<rparr>\<rparr>, None)"
proof -
  let ?h = "NewDefaultHttpClient ''https://h''"
  let ?r = "\<lparr>Method = ''GET'', URL = \<lparr>Scheme = [], Host = [], Path = ''https://h/items'', RawQuery = []\<rparr>,
         Header = Map.empty, Body = None, ctx = Some Background\<rparr>"
  let ?r' = "\<lparr>Method = ''GET'', URL = \<lparr>Scheme = [], Host = [], Path = ''https://h/items'', RawQuery = []\<rparr>,
         Header = Map.empty, Body = None, ctx = Some (WithValue Background ''k'' ''v'')\<rparr>"
  have c: "client ?h = Some pooledClient" by (simp add: NewDefaultHttpClient_def)
  have b: "Request_Context ?r = Background" "Request_Context ?r' \<noteq> Background"
    by (simp_all add: Request_Context_def)
  from ExecuteRequest_default_deadline [OF c, of ?r "mockServer 200 []"]
       ExecuteRequest_default_deadline [OF c, of ?r' "mockServer 200 []"] b c
  show ?thesis by (simp add: mockServer_def)
qed

text \<open>
  On a failed round trip with a nil response \<^verbatim>\<open>handleError\<close> ends the process in
  \<^verbatim>\<open>log.Fatal\<close>; the response is not dereferenced and nothing panics.
\<close>

theorem handleError_exits_counterexample:
  "handleError refusedServer None (errorString ''connection refused'') = Exits 1
   \<and> handleError refusedServer None (errorString ''connection refused'')
       \<noteq> Panics NilPointerDereference"
  by (simp add: handleError_def log_Fatal_def)

text \<open>
  C10 (amended). \<^verbatim>\<open>handleError\<close> returns on none of its inputs: it ends the process in
  \<^verbatim>\<open>log.Fatal\<close> before the status classification. The classification statements read the
  response with no nil check and would panic on a nil response. Whenever the round trip
  returns an error, \<^verbatim>\<open>ExecuteRequest\<close> passes the response on unchecked and the process
  exits.
\<close>

theorem handleError_exits_before_classification:
  "handleError L resp err = Exits 1
   \<and> handleError_classify L None = Panics NilPointerDereference
   \<and> (client h = Some cl
        \<and> Client_Do L cl (if Request_Context r = Background
                           then r\<lparr>ctx := Some (WithTimeout Background 30000000000)\<rparr> else r)
            = (resp, Some err)
       \<longrightarrow> ExecuteRequest L h (Some r) = Exits 1)"
  by (auto simp: handleError_Exits handleError_classify_def ExecuteRequest_unfold)

text \<open>
  The theorem at a refused connection.
\<close>

theorem handleError_exits_before_classification_witness:
  "client (NewDefaultHttpClient ''http://localhost:9'') = Some pooledClient
   \<and> Client_Do refusedServer pooledClient
      \<lparr>Method = ''GET'', URL = \<lparr>Scheme = [], Host = [], Path = ''http://localhost:9/items'', RawQuery = []\<rparr>,
       Header = Map.empty, Body = None, ctx = Some (WithTimeout Background 30000000000)\<rparr>
     = (None, Some (errorString ''connection refused''))
   \<and> ExecuteRequest refusedServer (NewDefaultHttpClient ''http://localhost:9'')
        (Some \<lparr>Method = ''GET'',
               URL = \<lparr>Scheme = [], Host = [], Path = ''http://localhost:9/items'', RawQuery = []\<rparr>,
               Header = Map.empty, Body = None, ctx = Some Background\<rparr>) = Exits 1
   \<and> handleError refusedServer None (errorString ''connection refused'') = Exits 1
   \<and> handleError_classify refusedServer None = Panics NilPointerDereference"
proof -
  let ?h = "NewDefaultHttpClient ''http://localhost:9''"
  let ?r = "\<lparr>Method = ''GET'', URL = \<lparr>Scheme = [], Host = [], Path = ''http://localhost:9/items'', RawQuery = []\<rparr>,
       Header = Map.empty, Body = None, ctx = Some Background\<rparr>"
  have c: "client ?h = Some pooledClient" by (simp add: NewDefaultHttpClient_def)
  have d: "Client_Do refusedServer pooledClient
             (if Request_Context ?r = Background
              then ?r\<lparr>ctx := Some (WithTimeout Background 30000000000)\<rparr> else ?r)
           = (None, Some (errorString ''connection refused''))"
    by (simp add: refusedServer_def)
  from handleError_exits_before_classification
         [of refusedServer None "errorString ''connection refused''" ?h pooledClient ?r] c d
  show ?thesis by (simp add: Request_Context_def refusedServer_def)
qed

section \<open>The request builder\<close>

text \<open>
  C6. A builder with a path that does not parse and a query parameter: \<^verbatim>\<open>Build\<close> panics on
  the nil request instead of returning the construction error. Without the query parameter
  it returns the error.
\<close>

theorem Build_panics_on_invalid_path:
  "url_Parse (mockServer 200 []) '':'' = Inl (errorString ''missing protocol scheme'')
   \<and> Build (mockServer 200 []) (QueryParam (Path_rb (Get NewRequestBuilder) '':'') ''k'' ''v'')
       = Panics NilPointerDereference
   \<and> Build (mockServer 200 []) (Path_rb (Get NewRequestBuilder) '':'')
       = Returns (None, Some (errorString ''missing protocol scheme''))"
  by (simp add: Build_def QueryParam_def Path_rb_def Get_def NewRequestBuilder_def eval_defs)

end
